theory Spec2Isabelle
  imports Main "HOL-Library.Sublist"
begin

section \<open>The ticket checker of \<open>src/App.tsx\<close>\<close>

text \<open>
  The page holds six pieces of React state and one asynchronous handler,
  \<open>checkTicketValidity\<close>, which normalises the typed wallet address, asks one contract for
  \<open>getHasValidKey\<close> and, when that answers \<open>false\<close>, for \<open>balanceOf\<close> and
  \<open>keyExpirationTimestampFor\<close>. The handler is modelled by explicit state passing: it takes
  the state of the component and returns the state after all queued updates, together with
  the list of contract calls it issued. Everything outside the repository (the \<open>ethers\<close>
  library, the contract behind the RPC endpoint, the clock) is a field of an environment.
\<close>

subsection \<open>Strings and thrown values\<close>

text \<open>
  Strings are \<open>string\<close>; a character is read as a code unit below 256. The characters that
  \<open>String.prototype.trim\<close> strips are, in that range, TAB, LF, VT, FF, CR, space and the
  no-break space.
\<close>

definition is_whitespace :: "char \<Rightarrow> bool" where
  "is_whitespace c = (of_char c \<in> {9, 10, 11, 12, 13, 32, 160 :: nat})"

definition trim :: "string \<Rightarrow> string" where
  "trim w = rev (dropWhile is_whitespace (rev (dropWhile is_whitespace w)))"

text \<open>A string is truthy when it is not empty.\<close>

definition truthy :: "string \<Rightarrow> bool" where
  "truthy w = (w \<noteq> [])"

text \<open>\<open>String.prototype.includes\<close>: the pattern occurs as a contiguous run.\<close>

fun starts_with :: "string \<Rightarrow> string \<Rightarrow> bool" where
  "starts_with w [] = True"
| "starts_with [] (p # ps) = False"
| "starts_with (c # cs) (p # ps) = (c = p \<and> starts_with cs ps)"

fun includes_str :: "string \<Rightarrow> string \<Rightarrow> bool" where
  "includes_str [] p = starts_with [] p"
| "includes_str (c # cs) p = (starts_with (c # cs) p \<or> includes_str cs p)"

text \<open>
  A value caught by a \<open>catch\<close> clause is an error object, as \<open>ethers\<close> rejects with; the
  handler reads nothing of it but its \<open>message\<close>, which is a string or \<open>undefined\<close>
  (\<open>None\<close>).
\<close>

datatype js_error = JsError (message: "string option")

text \<open>
  \<open>if (error.message)\<close> and \<open>error.message || ...\<close> test the message for truthiness:
  \<open>undefined\<close> and the empty string are falsy. \<open>truthy_message\<close> yields the message
  when it is truthy.
\<close>

fun truthy_message :: "js_error \<Rightarrow> string option" where
  "truthy_message (JsError None) = None"
| "truthy_message (JsError (Some m)) = (if truthy m then Some m else None)"

subsection \<open>The state of the component\<close>

record NFTDetails =
  contractName :: string
  eventName :: string
  keyExpiration :: "string option"

record app_state =
  walletAddress :: string
  isValidTicket :: "bool option"
  isLoading :: bool
  nftDetails :: "NFTDetails option"
  showContractInfo :: bool
  errorInfo :: "string option"

text \<open>The six \<open>useState\<close> initial values.\<close>

definition initial_state :: app_state where
  "initial_state =
     \<lparr>walletAddress = [], isValidTicket = None, isLoading = False, nftDetails = None,
      showContractInfo = False, errorInfo = None\<rparr>"

subsection \<open>The environment\<close>

text \<open>
  \<open>getAddress\<close> is \<open>ethers.getAddress\<close> (\<open>Inl\<close>: it throws). \<open>newContract\<close> stands for the
  two constructor calls \<open>new ethers.JsonRpcProvider\<close> and \<open>new ethers.Contract\<close> at the head
  of the outer \<open>try\<close>. The three contract methods answer per address; \<open>Inl\<close> is a rejected
  promise. A \<open>uint256\<close> is decoded to a non-negative \<open>bigint\<close>, hence \<open>nat\<close>. \<open>dateNow\<close> is
  \<open>Date.now()\<close>, in milliseconds.
\<close>

record env =
  getAddress :: "string \<Rightarrow> js_error + string"
  newContract :: "js_error + unit"
  getHasValidKey :: "string \<Rightarrow> js_error + bool"
  balanceOf :: "string \<Rightarrow> js_error + nat"
  keyExpirationTimestampFor :: "string \<Rightarrow> js_error + nat"
  dateNow :: int

text \<open>
  The three methods of the ABI. The model of the handler returns, with the state, the list
  of the contract calls it issued, oldest first, each a method and the address passed to it.
\<close>

datatype abi_method = GetHasValidKey | BalanceOf | KeyExpirationTimestampFor

type_synonym call = "abi_method \<times> string"

text \<open>
  How an invocation of the handler ends: it returns, or a thrown value reaches the caller.
  Every call that can throw or be rejected (\<open>getAddress\<close>, the constructors, the three
  contract methods) stands inside a \<open>try\<close> whose \<open>catch\<close> clause only logs and writes
  state, so each failure below is a branch that goes on to the end of the handler.
\<close>

datatype completion = Returned | Threw js_error

subsection \<open>\<open>checkTicketValidity\<close>\<close>

text \<open>
  Step 3 (lines 88 to 100): the expiration is compared with
  \<open>Math.floor(Date.now() / 1000)\<close>; a rejected call is logged and named in the diagnostic.
\<close>

definition checkExpiration :: "env \<Rightarrow> string \<Rightarrow> app_state \<Rightarrow> app_state \<times> call list" where
  "checkExpiration e normalizedAddress s =
     (case keyExpirationTimestampFor e normalizedAddress of
        Inr expiration \<Rightarrow>
          (let now = dateNow e div 1000 in
           if int expiration < now
           then (s\<lparr>errorInfo := Some ''Your key has expired''\<rparr>,
                 [(KeyExpirationTimestampFor, normalizedAddress)])
           else (s\<lparr>errorInfo := Some ''You own a key but it appears to be invalid''\<rparr>,
                 [(KeyExpirationTimestampFor, normalizedAddress)]))
      | Inl expError \<Rightarrow>
          (s\<lparr>errorInfo := Some ''Error checking key expiration''\<rparr>,
           [(KeyExpirationTimestampFor, normalizedAddress)]))"

text \<open>Step 2 (lines 84 to 107): the balance decides whether step 3 runs.\<close>

definition checkBalance :: "env \<Rightarrow> string \<Rightarrow> app_state \<Rightarrow> app_state \<times> call list" where
  "checkBalance e normalizedAddress s =
     (case balanceOf e normalizedAddress of
        Inr balance \<Rightarrow>
          (if balance > 0
           then (case checkExpiration e normalizedAddress s of
                   (s', calls) \<Rightarrow> (s', (BalanceOf, normalizedAddress) # calls))
           else (s\<lparr>errorInfo := Some ''No ticket found for this address''\<rparr>,
                 [(BalanceOf, normalizedAddress)]))
      | Inl balanceError \<Rightarrow>
          (s\<lparr>errorInfo := Some ''Error checking key ownership''\<rparr>,
           [(BalanceOf, normalizedAddress)]))"

text \<open>The handler of the inner \<open>catch (validKeyError)\<close> (lines 118 to 132).\<close>

definition validKeyError_handler :: "js_error \<Rightarrow> app_state \<Rightarrow> app_state" where
  "validKeyError_handler validKeyError s =
     (let s' =
        (case truthy_message validKeyError of
           Some m \<Rightarrow>
             if includes_str m ''call revert exception'' then
               s\<lparr>errorInfo :=
                  Some ''Contract call failed - the contract might not support this method''\<rparr>
             else if includes_str m ''network'' then
               s\<lparr>errorInfo := Some ''Network connection error - please try again''\<rparr>
             else s\<lparr>errorInfo := Some (''Error: '' @ m)\<rparr>
         | None \<Rightarrow> s)
      in s'\<lparr>isValidTicket := Some False\<rparr>)"

text \<open>Step 1 (lines 78 to 132).\<close>

definition checkValidKey :: "env \<Rightarrow> string \<Rightarrow> app_state \<Rightarrow> app_state \<times> call list" where
  "checkValidKey e normalizedAddress s =
     (case getHasValidKey e normalizedAddress of
        Inr hasValidKey \<Rightarrow>
          (let s1 = s\<lparr>isValidTicket := Some hasValidKey\<rparr>;
               (s2, calls) = (if \<not> hasValidKey then checkBalance e normalizedAddress s1
                              else (s1, []))
           in if hasValidKey
              then (s2\<lparr>nftDetails :=
                          Some \<lparr>contractName = ''DappCon25 Ticket'',
                                eventName = ''DappCon 2025'',
                                keyExpiration = Some ''16th-18th June, 2025''\<rparr>\<rparr>,
                    (GetHasValidKey, normalizedAddress) # calls)
              else (s2, (GetHasValidKey, normalizedAddress) # calls))
      | Inl validKeyError \<Rightarrow>
          (validKeyError_handler validKeyError s, [(GetHasValidKey, normalizedAddress)]))"

text \<open>The handler of the outer \<open>catch (error)\<close> (lines 133 to 136).\<close>

definition error_handler :: "js_error \<Rightarrow> app_state \<Rightarrow> app_state" where
  "error_handler error s =
     s\<lparr>isValidTicket := Some False,
       errorInfo := Some (''Error: '' @ (case truthy_message error of
                                          Some m \<Rightarrow> m
                                        | None \<Rightarrow> ''Unknown error''))\<rparr>"

text \<open>
  The handler itself (lines 54 to 140). The guard of line 55 returns before any update; a
  throwing \<open>getAddress\<close> returns from its own \<open>catch\<close>; every other path leaves through the
  \<open>finally\<close> clause, which clears the loading flag.
\<close>

definition checkTicketValidity :: "env \<Rightarrow> app_state \<Rightarrow> completion \<times> app_state \<times> call list" where
  "checkTicketValidity e s =
     (if \<not> truthy (trim (walletAddress s)) then (Returned, s, [])
      else
        (let s1 = s\<lparr>isLoading := True, isValidTicket := None, errorInfo := None\<rparr> in
         case getAddress e (walletAddress s) of
           Inl error \<Rightarrow>
             (Returned,
              s1\<lparr>errorInfo := Some ''Invalid wallet address format'', isLoading := False\<rparr>, [])
         | Inr normalizedAddress \<Rightarrow>
             (let (s2, calls) =
                (case newContract e of
                   Inr contract \<Rightarrow> checkValidKey e normalizedAddress s1
                 | Inl error \<Rightarrow> (error_handler error s1, []))
              in (Returned, s2\<lparr>isLoading := False\<rparr>, calls))))"

text \<open>What a call leaves behind: the contract calls issued, and the state.\<close>

definition network_calls :: "env \<Rightarrow> app_state \<Rightarrow> call list" where
  "network_calls e s = snd (snd (checkTicketValidity e s))"

definition state_after :: "env \<Rightarrow> app_state \<Rightarrow> app_state" where
  "state_after e s = fst (snd (checkTicketValidity e s))"

subsection \<open>The other handlers, and what is rendered\<close>

text \<open>The \<open>onChange\<close> of the input, \<open>toggleContractInfo\<close> and \<open>resetForm\<close>.\<close>

definition setWalletAddress :: "string \<Rightarrow> app_state \<Rightarrow> app_state" where
  "setWalletAddress w s = s\<lparr>walletAddress := w\<rparr>"

definition toggleContractInfo :: "app_state \<Rightarrow> app_state" where
  "toggleContractInfo s = s\<lparr>showContractInfo := \<not> showContractInfo s\<rparr>"

definition resetForm :: "app_state \<Rightarrow> app_state" where
  "resetForm s =
     s\<lparr>walletAddress := [], isValidTicket := None, errorInfo := None, nftDetails := None\<rparr>"

text \<open>
  A session is a list of user actions, each handled to completion before the next; a click
  on the validate button comes with the environment that answers it.
\<close>

datatype action = Type string | Validate env | ToggleContractInfo | Reset

fun handle :: "app_state \<Rightarrow> action \<Rightarrow> app_state" where
  "handle s (Type w) = setWalletAddress w s"
| "handle s (Validate e) = state_after e s"
| "handle s ToggleContractInfo = toggleContractInfo s"
| "handle s Reset = resetForm s"

definition session :: "action list \<Rightarrow> app_state" where
  "session actions = foldl handle initial_state actions"

text \<open>
  The validation outcome of the specification, read off the state: the tri-state flag
  (\<open>Some True\<close> is Valid, \<open>Some False\<close> is Invalid, \<open>None\<close> is Unknown), the diagnostic and
  the ticket details.
\<close>

definition outcome :: "app_state \<Rightarrow> bool option \<times> string option \<times> NFTDetails option" where
  "outcome s = (isValidTicket s, errorInfo s, nftDetails s)"

text \<open>
  From the JSX: the validate button is disabled by
  \<open>!walletAddress.trim() || isLoading\<close>; the red panel shows a truthy \<open>errorInfo\<close>; the
  green panel, under \<open>isValidTicket === true && !errorInfo\<close>, shows the details when there
  are some; the contract overlay, when open, shows contract name and event of the details
  when there are some.
\<close>

definition validate_disabled :: "app_state \<Rightarrow> bool" where
  "validate_disabled s = (\<not> truthy (trim (walletAddress s)) \<or> isLoading s)"

definition error_panel :: "app_state \<Rightarrow> string option" where
  "error_panel s = (case errorInfo s of Some m \<Rightarrow> if truthy m then Some m else None | None \<Rightarrow> None)"

definition success_panel_details :: "app_state \<Rightarrow> NFTDetails option" where
  "success_panel_details s =
     (if isValidTicket s = Some True \<and> error_panel s = None then nftDetails s else None)"

definition overlay_details :: "app_state \<Rightarrow> NFTDetails option" where
  "overlay_details s = (if showContractInfo s then nftDetails s else None)"

subsection \<open>Example environments\<close>

text \<open>
  Two wallets: a holder, typed in lower case and normalised to the checksummed spelling,
  and a second address, typed as it is normalised, that owns nothing. \<open>getAddress\<close>
  refuses every other string. In \<open>valid_env\<close> the holder's key is valid. In
  \<open>lapsed_env\<close> no key is valid, each wallet owns one key and it expires at second 100,
  the clock being a parameter. In \<open>failing_env\<close> the first call is rejected with a given
  error.
\<close>

definition typed_address :: string where
  "typed_address = ''0xd8da6bf26964af9d7eed9e03e53415d37aa96045''"

definition checksummed_address :: string where
  "checksummed_address = ''0xd8dA6BF26964aF9D7eEd9e03E53415D37aA96045''"

definition other_address :: string where
  "other_address = ''0x9340184741D938453bF66D77d551Cc04Ab2F4925''"

definition example_getAddress :: "string \<Rightarrow> js_error + string" where
  "example_getAddress w =
     (if w = typed_address \<or> w = checksummed_address then Inr checksummed_address
      else if w = other_address then Inr other_address
      else Inl (JsError (Some ''invalid address'')))"

definition valid_env :: env where
  "valid_env =
     \<lparr>getAddress = example_getAddress, newContract = Inr (),
      getHasValidKey = (\<lambda>a. Inr (a = checksummed_address)),
      balanceOf = (\<lambda>a. Inr (if a = checksummed_address then 1 else 0)),
      keyExpirationTimestampFor = (\<lambda>a. Inr (if a = checksummed_address then 1750000000 else 0)),
      dateNow = 1749000000000\<rparr>"

definition lapsed_env :: "int \<Rightarrow> env" where
  "lapsed_env ms =
     \<lparr>getAddress = example_getAddress, newContract = Inr (),
      getHasValidKey = (\<lambda>a. Inr False), balanceOf = (\<lambda>a. Inr 1),
      keyExpirationTimestampFor = (\<lambda>a. Inr 100), dateNow = ms\<rparr>"

definition failing_env :: "js_error \<Rightarrow> env" where
  "failing_env err =
     \<lparr>getAddress = example_getAddress, newContract = Inr (),
      getHasValidKey = (\<lambda>a. Inl err), balanceOf = (\<lambda>a. Inr 0),
      keyExpirationTimestampFor = (\<lambda>a. Inr 0), dateNow = 1749000000000\<rparr>"

text \<open>The states in which the one or the other address has just been typed into a fresh page.\<close>

definition typed_state :: app_state where
  "typed_state = setWalletAddress typed_address initial_state"

definition other_state :: app_state where
  "other_state = setWalletAddress other_address initial_state"

section \<open>Properties\<close>

subsection \<open>Strings\<close>

lemma dropWhile_all_iff: "(\<forall>x\<in>set (dropWhile P w). P x) \<longleftrightarrow> (\<forall>x\<in>set w. P x)"
proof
  assume a: "\<forall>x\<in>set (dropWhile P w). P x"
  have "dropWhile P w = []"
  proof (rule ccontr)
    assume n: "dropWhile P w \<noteq> []"
    then have "\<not> P (hd (dropWhile P w))" by (rule hd_dropWhile)
    moreover have "hd (dropWhile P w) \<in> set (dropWhile P w)" using n by simp
    ultimately show False using a by blast
  qed
  then show "\<forall>x\<in>set w. P x" by (simp add: dropWhile_eq_Nil_conv)
next
  assume "\<forall>x\<in>set w. P x"
  then show "\<forall>x\<in>set (dropWhile P w). P x" by (auto dest: set_dropWhileD)
qed

text \<open>The guard of line 55 lets a string through exactly when some character of it is not whitespace.\<close>

lemma truthy_trim_iff: "truthy (trim w) \<longleftrightarrow> (\<exists>c\<in>set w. \<not> is_whitespace c)"
  using dropWhile_all_iff [of is_whitespace w]
  by (simp add: truthy_def trim_def dropWhile_eq_Nil_conv)

lemma starts_with_iff: "starts_with w p \<longleftrightarrow> (\<exists>v. w = p @ v)"
  by (induction w p rule: starts_with.induct) auto

text \<open>\<open>includes_str\<close> is the substring test.\<close>

lemma includes_str_iff: "includes_str w p \<longleftrightarrow> (\<exists>u v. w = u @ p @ v)"
proof (induction w)
  case Nil
  then show ?case by (auto simp: starts_with_iff)
next
  case (Cons c cs)
  show ?case
  proof
    assume "includes_str (c # cs) p"
    then consider "starts_with (c # cs) p" | "includes_str cs p" by auto
    then show "\<exists>u v. c # cs = u @ p @ v"
    proof cases
      case 1
      then obtain v where "c # cs = [] @ p @ v" by (auto simp: starts_with_iff)
      then show ?thesis by blast
    next
      case 2
      then obtain u v where "cs = u @ p @ v" using Cons.IH by blast
      then have "c # cs = (c # u) @ p @ v" by simp
      then show ?thesis by blast
    qed
  next
    assume "\<exists>u v. c # cs = u @ p @ v"
    then obtain u v where uv: "c # cs = u @ p @ v" by blast
    show "includes_str (c # cs) p"
    proof (cases u)
      case Nil
      then have "starts_with (c # cs) p" using uv by (simp add: starts_with_iff)
      then show ?thesis by simp
    next
      case (Cons d u')
      then have "cs = u' @ p @ v" using uv by simp
      then have "includes_str cs p" using Cons.IH by blast
      then show ?thesis by simp
    qed
  qed
qed

subsection \<open>Facts about the example environments\<close>

lemma typed_address_truthy: "truthy (trim (walletAddress typed_state))"
  by (simp add: typed_state_def setWalletAddress_def typed_address_def truthy_def trim_def
      is_whitespace_def)

lemma other_address_truthy: "truthy (trim (walletAddress other_state))"
  by (simp add: other_state_def setWalletAddress_def other_address_def truthy_def trim_def
      is_whitespace_def)

lemma getAddress_typed:
  "example_getAddress (walletAddress typed_state) = Inr checksummed_address"
  by (simp add: typed_state_def setWalletAddress_def example_getAddress_def)

lemma getAddress_other:
  "example_getAddress (walletAddress other_state) = Inr other_address"
  by (simp add: other_state_def setWalletAddress_def example_getAddress_def typed_address_def
      checksummed_address_def other_address_def)

subsection \<open>The guard on a blank input\<close>

text \<open>
  Claim C10. When the typed address is empty or holds whitespace only,
  \<open>checkTicketValidity\<close> returns at once: the state is the state it was called in (the loading
  flag, the outcome and the diagnostic included) and no contract call is issued.
\<close>

theorem blank_address_changes_nothing:
  assumes "\<forall>c\<in>set (walletAddress s). is_whitespace c"
  shows "checkTicketValidity e s = (Returned, s, [])"
  using assms by (simp add: checkTicketValidity_def truthy_trim_iff)

theorem blank_address_changes_nothing_witness:
  "list_all is_whitespace (walletAddress (setWalletAddress [CHR '' '', CHR 0x09, CHR 0x0A] initial_state))
   \<and> checkTicketValidity valid_env (setWalletAddress [CHR '' '', CHR 0x09, CHR 0x0A] initial_state)
     = (Returned, setWalletAddress [CHR '' '', CHR 0x09, CHR 0x0A] initial_state, [])"
proof -
  have h: "\<forall>c\<in>set (walletAddress (setWalletAddress [CHR '' '', CHR 0x09, CHR 0x0A] initial_state)).
             is_whitespace c"
    by (simp add: setWalletAddress_def is_whitespace_def)
  show ?thesis
    using h blank_address_changes_nothing [OF h, of valid_env] by (simp add: list_all_iff)
qed

subsection \<open>A valid key\<close>

text \<open>
  Claim C1. For a well-formed address (not blank, and normalised by \<open>getAddress\<close> to \<open>a\<close>),
  with the contract object constructed and \<open>getHasValidKey a\<close> answering \<open>true\<close>, the
  outcome is Valid, the details are exactly contract name "DappCon25 Ticket", event name
  "DappCon 2025" and key expiration "16th-18th June, 2025", and no diagnostic is set.
  \<open>getHasValidKey\<close> is the only call issued.
\<close>

theorem valid_key_gives_valid_outcome:
  assumes "truthy (trim (walletAddress s))"
    and "getAddress e (walletAddress s) = Inr a"
    and "newContract e = Inr ()"
    and "getHasValidKey e a = Inr True"
  shows "checkTicketValidity e s =
         (Returned,
          s\<lparr>isValidTicket := Some True, isLoading := False,
            nftDetails := Some \<lparr>contractName = ''DappCon25 Ticket'',
                                eventName = ''DappCon 2025'',
                                keyExpiration = Some ''16th-18th June, 2025''\<rparr>,
            errorInfo := None\<rparr>,
          [(GetHasValidKey, a)])"
  using assms by (simp add: checkTicketValidity_def checkValidKey_def)

theorem valid_key_gives_valid_outcome_witness:
  "truthy (trim (walletAddress typed_state))
   \<and> getAddress valid_env (walletAddress typed_state) = Inr checksummed_address
   \<and> newContract valid_env = Inr ()
   \<and> getHasValidKey valid_env checksummed_address = Inr True
   \<and> checkTicketValidity valid_env typed_state =
       (Returned,
        typed_state\<lparr>isValidTicket := Some True, isLoading := False,
          nftDetails := Some \<lparr>contractName = ''DappCon25 Ticket'',
                              eventName = ''DappCon 2025'',
                              keyExpiration = Some ''16th-18th June, 2025''\<rparr>,
          errorInfo := None\<rparr>,
        [(GetHasValidKey, checksummed_address)])"
proof -
  have h1: "truthy (trim (walletAddress typed_state))" by (rule typed_address_truthy)
  have h2: "getAddress valid_env (walletAddress typed_state) = Inr checksummed_address"
    by (simp add: valid_env_def getAddress_typed)
  have h3: "newContract valid_env = Inr ()" by (simp add: valid_env_def)
  have h4: "getHasValidKey valid_env checksummed_address = Inr True" by (simp add: valid_env_def)
  show ?thesis using h1 h2 h3 h4 valid_key_gives_valid_outcome [OF h1 h2 h3 h4] by simp
qed

subsection \<open>A malformed address\<close>

text \<open>
  Claim C2, as amended. For any malformed address string that is not blank (\<open>getAddress\<close>
  throws on it), the outcome is Unknown, the diagnostic is exactly
  "Invalid wallet address format", and no contract call is issued. A blank string is
  malformed too, and there the guard of line 55 returns before any diagnostic is written.
\<close>

theorem malformed_address_diagnostic:
  assumes "truthy (trim (walletAddress s))"
    and "getAddress e (walletAddress s) = Inl err"
  shows "checkTicketValidity e s =
         (Returned,
          s\<lparr>isValidTicket := None, isLoading := False,
            errorInfo := Some ''Invalid wallet address format''\<rparr>,
          [])"
  using assms by (simp add: checkTicketValidity_def)

theorem malformed_address_diagnostic_witness:
  "truthy (trim (walletAddress (setWalletAddress ''0x12'' initial_state)))
   \<and> getAddress valid_env (walletAddress (setWalletAddress ''0x12'' initial_state))
       = Inl (JsError (Some ''invalid address''))
   \<and> checkTicketValidity valid_env (setWalletAddress ''0x12'' initial_state) =
       (Returned,
        \<lparr>walletAddress = ''0x12'', isValidTicket = None, isLoading = False, nftDetails = None,
         showContractInfo = False, errorInfo = Some ''Invalid wallet address format''\<rparr>,
        [])"
proof -
  have h1: "truthy (trim (walletAddress (setWalletAddress ''0x12'' initial_state)))"
    by (simp add: setWalletAddress_def truthy_def trim_def is_whitespace_def)
  have h2: "getAddress valid_env (walletAddress (setWalletAddress ''0x12'' initial_state))
              = Inl (JsError (Some ''invalid address''))"
    by (simp add: valid_env_def setWalletAddress_def example_getAddress_def typed_address_def
        checksummed_address_def other_address_def)
  show ?thesis
    using h1 h2 malformed_address_diagnostic [OF h1 h2]
    by (simp add: setWalletAddress_def initial_state_def)
qed

text \<open>
  The claim as stated fails on the malformed string of three spaces: the call leaves the
  diagnostic of the fresh page, which is none.
\<close>

theorem blank_malformed_address_counterexample:
  "getAddress valid_env (walletAddress (setWalletAddress ''   '' initial_state))
     = Inl (JsError (Some ''invalid address''))
   \<and> errorInfo (state_after valid_env (setWalletAddress ''   '' initial_state))
     \<noteq> Some ''Invalid wallet address format''"
  by (simp add: valid_env_def setWalletAddress_def example_getAddress_def typed_address_def
      checksummed_address_def other_address_def state_after_def checkTicketValidity_def
      truthy_def trim_def is_whitespace_def initial_state_def)

subsection \<open>No valid key\<close>

text \<open>
  Claim C3. For a well-formed address where \<open>getHasValidKey\<close> answers \<open>false\<close> and
  \<open>balanceOf\<close> answers 0, the outcome is Invalid with diagnostic exactly
  "No ticket found for this address"; the calls issued are \<open>getHasValidKey\<close> and
  \<open>balanceOf\<close>, so \<open>keyExpirationTimestampFor\<close> is not called.
\<close>

theorem no_key_no_balance:
  assumes "truthy (trim (walletAddress s))"
    and "getAddress e (walletAddress s) = Inr a"
    and "newContract e = Inr ()"
    and "getHasValidKey e a = Inr False"
    and "balanceOf e a = Inr 0"
  shows "checkTicketValidity e s =
         (Returned,
          s\<lparr>isValidTicket := Some False, isLoading := False,
            errorInfo := Some ''No ticket found for this address''\<rparr>,
          [(GetHasValidKey, a), (BalanceOf, a)])"
  using assms by (simp add: checkTicketValidity_def checkValidKey_def checkBalance_def)

theorem no_key_no_balance_witness:
  "truthy (trim (walletAddress other_state))
   \<and> getAddress valid_env (walletAddress other_state) = Inr other_address
   \<and> newContract valid_env = Inr ()
   \<and> getHasValidKey valid_env other_address = Inr False
   \<and> balanceOf valid_env other_address = Inr 0
   \<and> checkTicketValidity valid_env other_state =
       (Returned,
        other_state\<lparr>isValidTicket := Some False, isLoading := False,
          errorInfo := Some ''No ticket found for this address''\<rparr>,
        [(GetHasValidKey, other_address), (BalanceOf, other_address)])"
proof -
  have h1: "truthy (trim (walletAddress other_state))" by (rule other_address_truthy)
  have h2: "getAddress valid_env (walletAddress other_state) = Inr other_address"
    by (simp add: valid_env_def getAddress_other)
  have h3: "newContract valid_env = Inr ()" by (simp add: valid_env_def)
  have h4: "getHasValidKey valid_env other_address = Inr False"
    by (simp add: valid_env_def other_address_def checksummed_address_def)
  have h5: "balanceOf valid_env other_address = Inr 0"
    by (simp add: valid_env_def other_address_def checksummed_address_def)
  show ?thesis using h1 h2 h3 h4 h5 no_key_no_balance [OF h1 h2 h3 h4 h5] by simp
qed

text \<open>
  Claim C4. For a well-formed address where \<open>getHasValidKey\<close> answers \<open>false\<close>,
  \<open>balanceOf\<close> answers a positive balance and \<open>keyExpirationTimestampFor\<close> answers, the
  outcome is Invalid; the diagnostic is exactly "Your key has expired" when the expiration
  is strictly less than the current unix time \<open>Math.floor(Date.now() / 1000)\<close>, and exactly
  "You own a key but it appears to be invalid" when it is greater or equal.
\<close>

theorem owned_key_diagnostic:
  assumes "truthy (trim (walletAddress s))"
    and "getAddress e (walletAddress s) = Inr a"
    and "newContract e = Inr ()"
    and "getHasValidKey e a = Inr False"
    and "balanceOf e a = Inr balance"
    and "balance > 0"
    and "keyExpirationTimestampFor e a = Inr expiration"
  shows "checkTicketValidity e s =
         (Returned,
          s\<lparr>isValidTicket := Some False, isLoading := False,
            errorInfo := Some (if int expiration < dateNow e div 1000
                               then ''Your key has expired''
                               else ''You own a key but it appears to be invalid'')\<rparr>,
          [(GetHasValidKey, a), (BalanceOf, a), (KeyExpirationTimestampFor, a)])"
  using assms
  by (simp add: checkTicketValidity_def checkValidKey_def checkBalance_def checkExpiration_def)

text \<open>The key expires at second 100: at second 101 it has expired, at second 100 it has not.\<close>

theorem owned_key_diagnostic_witness:
  "errorInfo (state_after (lapsed_env 101000) typed_state) = Some ''Your key has expired''
   \<and> errorInfo (state_after (lapsed_env 100999) typed_state)
       = Some ''You own a key but it appears to be invalid''
   \<and> isValidTicket (state_after (lapsed_env 101000) typed_state) = Some False
   \<and> isValidTicket (state_after (lapsed_env 100999) typed_state) = Some False"
proof -
  have h1: "truthy (trim (walletAddress typed_state))" by (rule typed_address_truthy)
  have h2: "getAddress (lapsed_env ms) (walletAddress typed_state) = Inr checksummed_address"
    for ms by (simp add: lapsed_env_def getAddress_typed)
  have h3: "newContract (lapsed_env ms) = Inr ()" for ms by (simp add: lapsed_env_def)
  have h4: "getHasValidKey (lapsed_env ms) checksummed_address = Inr False" for ms
    by (simp add: lapsed_env_def)
  have h5: "balanceOf (lapsed_env ms) checksummed_address = Inr 1" for ms
    by (simp add: lapsed_env_def)
  have h6: "(1::nat) > 0" by simp
  have h7: "keyExpirationTimestampFor (lapsed_env ms) checksummed_address = Inr 100" for ms
    by (simp add: lapsed_env_def)
  have d: "dateNow (lapsed_env ms) = ms" for ms by (simp add: lapsed_env_def)
  show ?thesis
    using owned_key_diagnostic [OF h1 h2 h3 h4 h5 h6 h7, of 101000]
      owned_key_diagnostic [OF h1 h2 h3 h4 h5 h6 h7, of 100999]
    by (simp add: state_after_def d)
qed

subsection \<open>A rejected \<open>getHasValidKey\<close>\<close>

text \<open>
  What the inner \<open>catch\<close> computes, test by test: line 121 looks for
  "call revert exception", line 125 for "network".
\<close>

lemma rejected_getHasValidKey_result:
  assumes "truthy (trim (walletAddress s))"
    and "getAddress e (walletAddress s) = Inr a"
    and "newContract e = Inr ()"
    and "getHasValidKey e a = Inl err"
  shows "checkTicketValidity e s =
         (Returned,
          s\<lparr>isValidTicket := Some False, isLoading := False,
            errorInfo :=
              (case truthy_message err of
                 Some m \<Rightarrow>
                   Some (if includes_str m ''call revert exception''
                         then ''Contract call failed - the contract might not support this method''
                         else if includes_str m ''network''
                         then ''Network connection error - please try again''
                         else ''Error: '' @ m)
               | None \<Rightarrow> None)\<rparr>,
          [(GetHasValidKey, a)])"
  using assms
  by (simp add: checkTicketValidity_def checkValidKey_def validKeyError_handler_def
      split: option.splits)

lemma failing_env_hyps:
  "getAddress (failing_env err) (walletAddress typed_state) = Inr checksummed_address"
  "newContract (failing_env err) = Inr ()"
  "getHasValidKey (failing_env err) checksummed_address = Inl err"
  by (simp_all add: failing_env_def getAddress_typed)

text \<open>
  The page is written against the API of \<open>ethers\<close> 6 (\<open>ethers.getAddress\<close>,
  \<open>ethers.JsonRpcProvider\<close>), and "call revert exception" is how \<open>ethers\<close> 5 words a
  reverted call. A revert worded "execution reverted" is not taken for one: it is shown
  as an unclassified error.
\<close>

lemma execution_reverted_unclassified:
  "errorInfo (state_after (failing_env (JsError (Some ''execution reverted''))) typed_state)
     = Some ''Error: execution reverted''"
  using rejected_getHasValidKey_result [OF typed_address_truthy failing_env_hyps,
      of "JsError (Some ''execution reverted'')"]
  by (simp add: state_after_def truthy_def)




lemma outer_handler_diagnostic:
  assumes "truthy (trim (walletAddress s))"
    and "getAddress e (walletAddress s) = Inr a"
    and "newContract e = Inl err"
  shows "checkTicketValidity e s =
         (Returned,
          s\<lparr>isValidTicket := Some False, isLoading := False,
            errorInfo := Some (''Error: '' @ (case truthy_message err of
                                               Some m \<Rightarrow> m
                                             | None \<Rightarrow> ''Unknown error''))\<rparr>,
          [])"
  using assms by (simp add: checkTicketValidity_def error_handler_def)

subsection \<open>The contract calls of one run\<close>

lemma network_calls_eq:
  "network_calls e s =
     (if \<not> truthy (trim (walletAddress s)) then []
      else case getAddress e (walletAddress s) of
             Inl err \<Rightarrow> []
           | Inr a \<Rightarrow>
               (case newContract e of
                  Inl err \<Rightarrow> []
                | Inr u \<Rightarrow>
                    (GetHasValidKey, a) #
                    (case getHasValidKey e a of
                       Inl err \<Rightarrow> []
                     | Inr hasValidKey \<Rightarrow>
                         if hasValidKey then []
                         else (BalanceOf, a) #
                              (case balanceOf e a of
                                 Inl err \<Rightarrow> []
                               | Inr balance \<Rightarrow>
                                   if balance > 0 then [(KeyExpirationTimestampFor, a)]
                                   else []))))"
  by (simp add: network_calls_def checkTicketValidity_def checkValidKey_def checkBalance_def
      checkExpiration_def Let_def split: sum.splits prod.splits)

lemma methods_prefix:
  "prefix (map fst (network_calls e s)) [GetHasValidKey, BalanceOf, KeyExpirationTimestampFor]"
  by (simp add: network_calls_eq split: sum.splits)

lemma methods_once: "count_list (map fst (network_calls e s)) m \<le> 1"
  by (simp add: network_calls_eq split: sum.splits)

lemma calls_address:
  "(m, a) \<in> set (network_calls e s) \<Longrightarrow> getAddress e (walletAddress s) = Inr a"
  by (auto simp: network_calls_eq split: sum.splits if_splits)

lemma balanceOf_called:
  "BalanceOf \<in> set (map fst (network_calls e s)) \<Longrightarrow>
   \<exists>a. getAddress e (walletAddress s) = Inr a \<and> getHasValidKey e a = Inr False"
  by (auto simp: network_calls_eq split: sum.splits if_splits)

lemma keyExpirationTimestampFor_called:
  "KeyExpirationTimestampFor \<in> set (map fst (network_calls e s)) \<Longrightarrow>
   \<exists>a b. getAddress e (walletAddress s) = Inr a \<and> getHasValidKey e a = Inr False
     \<and> balanceOf e a = Inr b \<and> b > 0"
  by (auto simp: network_calls_eq split: sum.splits if_splits)

text \<open>
  Claim C6. For every input, the methods called by one run of \<open>checkTicketValidity\<close> are
  an initial part of \<open>getHasValidKey\<close>, \<open>balanceOf\<close>, \<open>keyExpirationTimestampFor\<close>, in that
  order; no method is called more than once (there is no retry); every call is given the
  normalised address; \<open>balanceOf\<close> is called only when \<open>getHasValidKey\<close> succeeded and
  answered \<open>false\<close>, and \<open>keyExpirationTimestampFor\<close> only when, moreover, \<open>balanceOf\<close>
  succeeded and answered a positive balance.
\<close>

theorem calls_once_in_fixed_order:
  "prefix (map fst (network_calls e s)) [GetHasValidKey, BalanceOf, KeyExpirationTimestampFor]
   \<and> (\<forall>m. count_list (map fst (network_calls e s)) m \<le> 1)
   \<and> (\<forall>(m, a) \<in> set (network_calls e s). getAddress e (walletAddress s) = Inr a)
   \<and> (BalanceOf \<in> set (map fst (network_calls e s)) \<longrightarrow>
        (\<exists>a. getAddress e (walletAddress s) = Inr a \<and> getHasValidKey e a = Inr False))
   \<and> (KeyExpirationTimestampFor \<in> set (map fst (network_calls e s)) \<longrightarrow>
        (\<exists>a b. getAddress e (walletAddress s) = Inr a \<and> getHasValidKey e a = Inr False
           \<and> balanceOf e a = Inr b \<and> b > 0))"
proof (intro conjI allI impI)
  show "prefix (map fst (network_calls e s)) [GetHasValidKey, BalanceOf, KeyExpirationTimestampFor]"
    by (rule methods_prefix)
  show "count_list (map fst (network_calls e s)) m \<le> 1" for m
    by (rule methods_once)
  show "\<forall>(m, a) \<in> set (network_calls e s). getAddress e (walletAddress s) = Inr a"
    using calls_address by blast
  show "\<exists>a. getAddress e (walletAddress s) = Inr a \<and> getHasValidKey e a = Inr False"
    if "BalanceOf \<in> set (map fst (network_calls e s))"
    using that by (rule balanceOf_called)
  show "\<exists>a b. getAddress e (walletAddress s) = Inr a \<and> getHasValidKey e a = Inr False
           \<and> balanceOf e a = Inr b \<and> b > 0"
    if "KeyExpirationTimestampFor \<in> set (map fst (network_calls e s))"
    using that by (rule keyExpirationTimestampFor_called)
qed

text \<open>A run that issues all three calls: both guards hold in \<open>lapsed_env\<close>.\<close>

theorem calls_once_in_fixed_order_witness:
  "network_calls (lapsed_env 101000) typed_state =
     [(GetHasValidKey, checksummed_address), (BalanceOf, checksummed_address),
      (KeyExpirationTimestampFor, checksummed_address)]
   \<and> count_list (map fst (network_calls (lapsed_env 101000) typed_state)) BalanceOf = 1
   \<and> getAddress (lapsed_env 101000) (walletAddress typed_state) = Inr checksummed_address
   \<and> getHasValidKey (lapsed_env 101000) checksummed_address = Inr False
   \<and> balanceOf (lapsed_env 101000) checksummed_address = Inr 1"
  using calls_once_in_fixed_order [of "lapsed_env 101000" typed_state] typed_address_truthy
  by (simp add: network_calls_eq lapsed_env_def getAddress_typed)

subsection \<open>What one run does to the state\<close>

lemma checkExpiration_sets_diagnostic:
  "\<exists>d. \<forall>s. fst (checkExpiration e a s) = s\<lparr>errorInfo := Some d\<rparr>"
proof (cases "keyExpirationTimestampFor e a")
  case (Inl err)
  then have "\<forall>s. fst (checkExpiration e a s) =
               s\<lparr>errorInfo := Some ''Error checking key expiration''\<rparr>"
    by (simp add: checkExpiration_def)
  then show ?thesis ..
next
  case (Inr expiration)
  then have "\<forall>s. fst (checkExpiration e a s) =
               s\<lparr>errorInfo := Some (if int expiration < dateNow e div 1000
                                       then ''Your key has expired''
                                       else ''You own a key but it appears to be invalid'')\<rparr>"
    by (simp add: checkExpiration_def)
  then show ?thesis ..
qed

lemma checkBalance_sets_diagnostic:
  "\<exists>d. \<forall>s. fst (checkBalance e a s) = s\<lparr>errorInfo := Some d\<rparr>"
proof (cases "balanceOf e a")
  case (Inl err)
  then have "\<forall>s. fst (checkBalance e a s) =
               s\<lparr>errorInfo := Some ''Error checking key ownership''\<rparr>"
    by (simp add: checkBalance_def)
  then show ?thesis ..
next
  case (Inr balance)
  show ?thesis
  proof (cases "balance > 0")
    case True
    with Inr have "\<forall>s. fst (checkBalance e a s) = fst (checkExpiration e a s)"
      by (simp add: checkBalance_def case_prod_beta)
    then show ?thesis using checkExpiration_sets_diagnostic [of e a] by simp
  next
    case False
    with Inr have "\<forall>s. fst (checkBalance e a s) =
                     s\<lparr>errorInfo := Some ''No ticket found for this address''\<rparr>"
      by (simp add: checkBalance_def)
    then show ?thesis ..
  qed
qed

text \<open>The state after step 1, by the answer of \<open>getHasValidKey\<close>.\<close>

lemma checkValidKey_true:
  "getHasValidKey e a = Inr True \<Longrightarrow>
   fst (checkValidKey e a s) =
     s\<lparr>isValidTicket := Some True,
       nftDetails := Some \<lparr>contractName = ''DappCon25 Ticket'', eventName = ''DappCon 2025'',
                           keyExpiration = Some ''16th-18th June, 2025''\<rparr>\<rparr>"
  by (simp add: checkValidKey_def)

lemma checkValidKey_false:
  assumes "getHasValidKey e a = Inr False"
  shows "\<exists>d. \<forall>s. fst (checkValidKey e a s) =
                  s\<lparr>isValidTicket := Some False, errorInfo := Some d\<rparr>"
proof -
  obtain d where d: "\<forall>s. fst (checkBalance e a s) = s\<lparr>errorInfo := Some d\<rparr>"
    using checkBalance_sets_diagnostic by blast
  have "\<forall>s. fst (checkValidKey e a s) = s\<lparr>isValidTicket := Some False, errorInfo := Some d\<rparr>"
    using assms d by (simp add: checkValidKey_def case_prod_beta Let_def)
  then show ?thesis ..
qed

lemma checkValidKey_rejected:
  "getHasValidKey e a = Inl err \<Longrightarrow>
   fst (checkValidKey e a s) = validKeyError_handler err s"
  by (simp add: checkValidKey_def)

lemma state_after_connected:
  assumes "truthy (trim (walletAddress s))"
    and "getAddress e (walletAddress s) = Inr a"
    and "newContract e = Inr u"
  shows "state_after e s =
         (fst (checkValidKey e a (s\<lparr>isLoading := True, isValidTicket := None,
                                      errorInfo := None\<rparr>)))\<lparr>isLoading := False\<rparr>"
  using assms by (simp add: state_after_def checkTicketValidity_def case_prod_beta Let_def)

text \<open>A run never touches the typed address.\<close>

lemma state_after_walletAddress: "walletAddress (state_after e s) = walletAddress s"
proof (cases "truthy (trim (walletAddress s))")
  case False
  then show ?thesis by (simp add: state_after_def checkTicketValidity_def)
next
  case nonblank: True
  show ?thesis
  proof (cases "getAddress e (walletAddress s)")
    case (Inl err)
    with nonblank show ?thesis by (simp add: state_after_def checkTicketValidity_def)
  next
    case normalized: (Inr a)
    show ?thesis
    proof (cases "newContract e")
      case (Inl err)
      with nonblank normalized show ?thesis
        by (simp add: state_after_def checkTicketValidity_def error_handler_def)
    next
      case connected: (Inr u)
      note run = state_after_connected [OF nonblank normalized connected]
      show ?thesis
      proof (cases "getHasValidKey e a")
        case (Inl err)
        then show ?thesis
          by (cases "truthy_message err")
            (simp_all add: run checkValidKey_rejected validKeyError_handler_def)
      next
        case (Inr hasValidKey)
        show ?thesis
        proof (cases hasValidKey)
          case True
          with Inr show ?thesis by (simp add: run checkValidKey_true)
        next
          case False
          with Inr have "getHasValidKey e a = Inr False" by simp
          from checkValidKey_false [OF this] obtain d where
            "\<forall>s. fst (checkValidKey e a s) = s\<lparr>isValidTicket := Some False, errorInfo := Some d\<rparr>"
            ..
          then show ?thesis by (simp add: run)
        qed
      qed
    qed
  qed
qed

text \<open>The loading flag after a run: it is set only if a blank input left it set.\<close>

lemma state_after_isLoading:
  "isLoading (state_after e s) = (\<not> truthy (trim (walletAddress s)) \<and> isLoading s)"
proof (cases "truthy (trim (walletAddress s))")
  case False
  then show ?thesis by (simp add: state_after_def checkTicketValidity_def)
next
  case nonblank: True
  show ?thesis
  proof (cases "getAddress e (walletAddress s)")
    case (Inl err)
    with nonblank show ?thesis by (simp add: state_after_def checkTicketValidity_def)
  next
    case normalized: (Inr a)
    show ?thesis
    proof (cases "newContract e")
      case (Inl err)
      with nonblank normalized show ?thesis
        by (simp add: state_after_def checkTicketValidity_def error_handler_def)
    next
      case (Inr u)
      with nonblank normalized show ?thesis by (simp add: state_after_connected)
    qed
  qed
qed

text \<open>
  The diagnostic after a run on a non-blank input is unset in two cases only: the key is
  valid, or \<open>getHasValidKey\<close> was rejected with an error that has no message.
\<close>

lemma diagnostic_unset_iff:
  assumes nonblank: "truthy (trim (walletAddress s))"
  shows "errorInfo (state_after e s) = None \<longleftrightarrow>
         (\<exists>a. getAddress e (walletAddress s) = Inr a \<and> newContract e = Inr ()
            \<and> (getHasValidKey e a = Inr True
               \<or> (\<exists>err. getHasValidKey e a = Inl err \<and> truthy_message err = None)))"
proof (cases "getAddress e (walletAddress s)")
  case (Inl err)
  with nonblank show ?thesis by (simp add: state_after_def checkTicketValidity_def)
next
  case normalized: (Inr a)
  show ?thesis
  proof (cases "newContract e")
    case (Inl err)
    with nonblank normalized show ?thesis
      by (simp add: state_after_def checkTicketValidity_def error_handler_def)
  next
    case connected: (Inr u)
    note run = state_after_connected [OF nonblank normalized connected]
    show ?thesis
    proof (cases "getHasValidKey e a")
      case (Inl err)
      with normalized connected show ?thesis
        by (cases "truthy_message err")
          (simp_all add: run checkValidKey_rejected validKeyError_handler_def)
    next
      case (Inr hasValidKey)
      show ?thesis
      proof (cases hasValidKey)
        case True
        with Inr normalized connected show ?thesis by (simp add: run checkValidKey_true)
      next
        case False
        with Inr have rejected: "getHasValidKey e a = Inr False" by simp
        from checkValidKey_false [OF this] obtain d where
          "\<forall>s. fst (checkValidKey e a s) = s\<lparr>isValidTicket := Some False, errorInfo := Some d\<rparr>"
          ..
        with rejected normalized connected show ?thesis by (simp add: run)
      qed
    qed
  qed
qed

lemma checkTicketValidity_returns: "fst (checkTicketValidity e s) = Returned"
  by (simp add: checkTicketValidity_def case_prod_beta Let_def split: sum.split)

text \<open>A second run in the same environment changes nothing.\<close>

lemma state_after_idem: "state_after e (state_after e s) = state_after e s"
proof (cases "truthy (trim (walletAddress s))")
  case False
  then show ?thesis by (simp add: state_after_def checkTicketValidity_def)
next
  case nonblank: True
  show ?thesis
  proof (cases "getAddress e (walletAddress s)")
    case (Inl err)
    with nonblank show ?thesis by (simp add: state_after_def checkTicketValidity_def)
  next
    case normalized: (Inr a)
    show ?thesis
    proof (cases "newContract e")
      case (Inl err)
      with nonblank normalized show ?thesis
        by (simp add: state_after_def checkTicketValidity_def error_handler_def)
    next
      case connected: (Inr u)
      show ?thesis
      proof (cases "getHasValidKey e a")
        case (Inl err)
        with nonblank normalized connected show ?thesis
          by (cases "truthy_message err")
            (simp_all add: state_after_def checkTicketValidity_def checkValidKey_def
              validKeyError_handler_def Let_def)
      next
        case (Inr hasValidKey)
        obtain d where "\<forall>s. fst (checkBalance e a s) = s\<lparr>errorInfo := Some d\<rparr>"
          using checkBalance_sets_diagnostic by blast
        with Inr nonblank normalized connected show ?thesis
          by (simp add: state_after_def checkTicketValidity_def checkValidKey_def
              case_prod_beta Let_def)
      qed
    qed
  qed
qed

text \<open>A run reads the clock in whole seconds only.\<close>

lemma checkExpiration_cong:
  assumes "keyExpirationTimestampFor e2 = keyExpirationTimestampFor e1"
    and "dateNow e2 div 1000 = dateNow e1 div 1000"
  shows "checkExpiration e2 a s = checkExpiration e1 a s"
  using assms by (simp add: checkExpiration_def split: sum.split)

lemma checkBalance_cong:
  assumes "balanceOf e2 = balanceOf e1"
    and "keyExpirationTimestampFor e2 = keyExpirationTimestampFor e1"
    and "dateNow e2 div 1000 = dateNow e1 div 1000"
  shows "checkBalance e2 a s = checkBalance e1 a s"
  using assms(1) checkExpiration_cong [OF assms(2,3)]
  by (simp add: checkBalance_def split: sum.split)

lemma checkValidKey_cong:
  assumes "getHasValidKey e2 = getHasValidKey e1"
    and "balanceOf e2 = balanceOf e1"
    and "keyExpirationTimestampFor e2 = keyExpirationTimestampFor e1"
    and "dateNow e2 div 1000 = dateNow e1 div 1000"
  shows "checkValidKey e2 a s = checkValidKey e1 a s"
  using assms(1) checkBalance_cong [OF assms(2,3,4)]
  by (simp add: checkValidKey_def Let_def split: sum.split)

lemma state_after_cong:
  assumes "getAddress e2 = getAddress e1"
    and "newContract e2 = newContract e1"
    and "getHasValidKey e2 = getHasValidKey e1"
    and "balanceOf e2 = balanceOf e1"
    and "keyExpirationTimestampFor e2 = keyExpirationTimestampFor e1"
    and "dateNow e2 div 1000 = dateNow e1 div 1000"
  shows "state_after e2 s = state_after e1 s"
  using assms(1,2) checkValidKey_cong [OF assms(3,4,5,6)]
  by (simp add: state_after_def checkTicketValidity_def Let_def split: sum.split)

text \<open>Between the actions of a session the loading flag is never set.\<close>

lemma session_not_loading: "\<not> isLoading (session actions)"
proof (induction actions rule: rev_induct)
  case Nil
  then show ?case by (simp add: session_def initial_state_def)
next
  case (snoc x xs)
  then show ?case
    by (cases x)
      (simp_all add: session_def state_after_isLoading setWalletAddress_def
        toggleContractInfo_def resetForm_def)
qed

subsection \<open>Ticket details after an outcome that is not Valid\<close>

text \<open>
  Claim C7 says that no ticket details are attached after a call whose outcome is not
  Valid, also when the call follows an earlier one. The handler clears the outcome and the
  diagnostic at its start (lines 58 and 59) but not the details, which only \<open>resetForm\<close>
  clears. In the session below the holder's address is validated, then the second
  address: the outcome is Invalid with "No ticket found for this address", the green panel
  is gone, and the details of the first call are still in the state, where the contract
  overlay shows them.
\<close>

theorem stale_details_after_invalid_outcome:
  "isValidTicket
     (session [Type typed_address, Validate valid_env, Type other_address, Validate valid_env])
     = Some False
   \<and> errorInfo
       (session [Type typed_address, Validate valid_env, Type other_address, Validate valid_env])
     = Some ''No ticket found for this address''
   \<and> success_panel_details
       (session [Type typed_address, Validate valid_env, Type other_address, Validate valid_env])
     = None
   \<and> nftDetails
       (session [Type typed_address, Validate valid_env, Type other_address, Validate valid_env])
     = Some \<lparr>contractName = ''DappCon25 Ticket'', eventName = ''DappCon 2025'',
             keyExpiration = Some ''16th-18th June, 2025''\<rparr>
   \<and> overlay_details
       (session [Type typed_address, Validate valid_env, Type other_address, Validate valid_env,
                 ToggleContractInfo])
     = Some \<lparr>contractName = ''DappCon25 Ticket'', eventName = ''DappCon 2025'',
             keyExpiration = Some ''16th-18th June, 2025''\<rparr>"
proof -
  have first: "session [Type typed_address, Validate valid_env] =
      typed_state\<lparr>isValidTicket := Some True, isLoading := False,
        nftDetails := Some \<lparr>contractName = ''DappCon25 Ticket'', eventName = ''DappCon 2025'',
                            keyExpiration = Some ''16th-18th June, 2025''\<rparr>,
        errorInfo := None\<rparr>"
    using typed_address_truthy
    by (simp add: session_def typed_state_def [symmetric] state_after_def
        checkTicketValidity_def checkValidKey_def valid_env_def getAddress_typed)
  have typed: "handle (session [Type typed_address, Validate valid_env]) (Type other_address) =
      other_state\<lparr>isValidTicket := Some True,
        nftDetails := Some \<lparr>contractName = ''DappCon25 Ticket'', eventName = ''DappCon 2025'',
                            keyExpiration = Some ''16th-18th June, 2025''\<rparr>\<rparr>"
    by (simp add: first typed_state_def other_state_def setWalletAddress_def initial_state_def)
  have second: "session [Type typed_address, Validate valid_env, Type other_address,
                         Validate valid_env] =
      other_state\<lparr>isValidTicket := Some False,
        nftDetails := Some \<lparr>contractName = ''DappCon25 Ticket'', eventName = ''DappCon 2025'',
                            keyExpiration = Some ''16th-18th June, 2025''\<rparr>,
        errorInfo := Some ''No ticket found for this address''\<rparr>"
  proof -
    have "session [Type typed_address, Validate valid_env, Type other_address, Validate valid_env]
          = state_after valid_env
              (handle (session [Type typed_address, Validate valid_env]) (Type other_address))"
      by (simp add: session_def)
    also have "\<dots> = state_after valid_env
        (other_state\<lparr>isValidTicket := Some True,
           nftDetails := Some \<lparr>contractName = ''DappCon25 Ticket'', eventName = ''DappCon 2025'',
                               keyExpiration = Some ''16th-18th June, 2025''\<rparr>\<rparr>)"
      by (simp only: typed)
    also have "\<dots> = other_state\<lparr>isValidTicket := Some False,
        nftDetails := Some \<lparr>contractName = ''DappCon25 Ticket'', eventName = ''DappCon 2025'',
                            keyExpiration = Some ''16th-18th June, 2025''\<rparr>,
        errorInfo := Some ''No ticket found for this address''\<rparr>"
      using other_address_truthy getAddress_other
      by (simp add: state_after_def checkTicketValidity_def checkValidKey_def
          checkBalance_def valid_env_def other_address_def checksummed_address_def)
        (simp add: other_state_def setWalletAddress_def initial_state_def)
    finally show ?thesis .
  qed
  have third: "session [Type typed_address, Validate valid_env, Type other_address,
                        Validate valid_env, ToggleContractInfo] =
      toggleContractInfo (session [Type typed_address, Validate valid_env, Type other_address,
                                   Validate valid_env])"
    by (simp add: session_def)
  show ?thesis
    unfolding third unfolding second
    by (simp add: success_panel_details_def overlay_details_def toggleContractInfo_def
        other_state_def setWalletAddress_def initial_state_def)
qed

subsection \<open>Validating twice\<close>

text \<open>
  Claim C8, as amended. Calling \<open>checkTicketValidity\<close> twice in succession with the same
  address string, unchanged answers of \<open>getAddress\<close>, of the contract constructor and of
  the three contract methods, and the same reading of the clock in whole seconds yields the
  same outcome, diagnostic and details both times. (The address string is the same because
  no run changes it.)
\<close>

theorem validate_twice_same_outcome:
  assumes "getAddress e2 = getAddress e1"
    and "newContract e2 = newContract e1"
    and "getHasValidKey e2 = getHasValidKey e1"
    and "balanceOf e2 = balanceOf e1"
    and "keyExpirationTimestampFor e2 = keyExpirationTimestampFor e1"
    and "dateNow e2 div 1000 = dateNow e1 div 1000"
  shows "outcome (state_after e2 (state_after e1 s)) = outcome (state_after e1 s)"
  using state_after_cong [OF assms] state_after_idem by simp

lemma lapsed_env_fields:
  "getAddress (lapsed_env ms) = example_getAddress"
  "newContract (lapsed_env ms) = Inr ()"
  "getHasValidKey (lapsed_env ms) = (\<lambda>a. Inr False)"
  "balanceOf (lapsed_env ms) = (\<lambda>a. Inr 1)"
  "keyExpirationTimestampFor (lapsed_env ms) = (\<lambda>a. Inr 100)"
  "dateNow (lapsed_env ms) = ms"
  by (simp_all add: lapsed_env_def)

lemma lapsed_outcome:
  assumes "walletAddress s = typed_address"
  shows "outcome (state_after (lapsed_env ms) s) =
     (Some False,
      Some (if 100 < ms div 1000 then ''Your key has expired''
            else ''You own a key but it appears to be invalid''),
      nftDetails s)"
proof -
  have "truthy (trim (walletAddress s))"
    using typed_address_truthy assms by (simp add: typed_state_def setWalletAddress_def)
  moreover have "example_getAddress (walletAddress s) = Inr checksummed_address"
    using getAddress_typed assms by (simp add: typed_state_def setWalletAddress_def)
  ultimately show ?thesis
    by (simp add: outcome_def state_after_def checkTicketValidity_def checkValidKey_def
        checkBalance_def checkExpiration_def lapsed_env_fields)
qed

lemma typed_state_fields:
  "walletAddress typed_state = typed_address" "nftDetails typed_state = None"
  by (simp_all add: typed_state_def setWalletAddress_def initial_state_def)

text \<open>Two runs within second 100.\<close>

theorem validate_twice_same_outcome_witness:
  "dateNow (lapsed_env 100999) div 1000 = dateNow (lapsed_env 100000) div 1000
   \<and> outcome (state_after (lapsed_env 100999) (state_after (lapsed_env 100000) typed_state))
     = outcome (state_after (lapsed_env 100000) typed_state)
   \<and> outcome (state_after (lapsed_env 100000) typed_state)
     = (Some False, Some ''You own a key but it appears to be invalid'', None)"
proof -
  have h: "dateNow (lapsed_env 100999) div 1000 = dateNow (lapsed_env 100000) div 1000"
    by (simp add: lapsed_env_fields)
  have "outcome (state_after (lapsed_env 100999) (state_after (lapsed_env 100000) typed_state))
        = outcome (state_after (lapsed_env 100000) typed_state)"
    by (rule validate_twice_same_outcome [OF _ _ _ _ _ h]) (simp_all add: lapsed_env_fields)
  then show ?thesis using h by (simp add: lapsed_outcome typed_state_fields)
qed

text \<open>
  The claim as stated fails when the clock passes the expiration between the two calls,
  the address and every answer of the contract being the same: the first call, at second
  100, says the key appears to be invalid, the second, at second 101, that it has expired.
\<close>

theorem clock_between_calls_counterexample:
  "getAddress (lapsed_env 101000) = getAddress (lapsed_env 100000)
   \<and> getHasValidKey (lapsed_env 101000) = getHasValidKey (lapsed_env 100000)
   \<and> balanceOf (lapsed_env 101000) = balanceOf (lapsed_env 100000)
   \<and> keyExpirationTimestampFor (lapsed_env 101000) = keyExpirationTimestampFor (lapsed_env 100000)
   \<and> walletAddress (state_after (lapsed_env 100000) typed_state) = walletAddress typed_state
   \<and> outcome (state_after (lapsed_env 101000) (state_after (lapsed_env 100000) typed_state))
     \<noteq> outcome (state_after (lapsed_env 100000) typed_state)"
proof -
  have first: "outcome (state_after (lapsed_env 100000) typed_state) =
                 (Some False, Some ''You own a key but it appears to be invalid'', None)"
    by (simp add: lapsed_outcome typed_state_fields)
  have "walletAddress (state_after (lapsed_env 100000) typed_state) = typed_address"
    by (simp add: state_after_walletAddress typed_state_fields)
  then have second:
    "outcome (state_after (lapsed_env 101000) (state_after (lapsed_env 100000) typed_state)) =
       (Some False, Some ''Your key has expired'',
        nftDetails (state_after (lapsed_env 100000) typed_state))"
    by (simp add: lapsed_outcome)
  show ?thesis
    unfolding first second
    by (simp add: lapsed_env_fields state_after_walletAddress)
qed

subsection \<open>No error leaves the handler\<close>

text \<open>
  Claim C9, as amended. For every input and every combination of failures (of
  \<open>getAddress\<close>, of the contract constructor, of the three contract calls)
  \<open>checkTicketValidity\<close> returns to its caller and throws nothing. After a call on a
  non-blank address the loading flag is false and the validate button is enabled again; a
  call never sets a loading flag that was not set. Every failure is converted to a
  diagnostic string, with one exception: a rejected \<open>getHasValidKey\<close> whose error has no
  message (absent or empty) sets the outcome to Invalid and leaves the diagnostic unset.
  So after a call on a non-blank address the diagnostic is unset exactly when the key is
  valid or \<open>getHasValidKey\<close> was rejected without a message.
\<close>

theorem errors_recovered_locally:
  "fst (checkTicketValidity e s) = Returned
   \<and> (\<not> isLoading s \<longrightarrow> \<not> isLoading (state_after e s))
   \<and> (truthy (trim (walletAddress s)) \<longrightarrow>
        \<not> isLoading (state_after e s)
        \<and> \<not> validate_disabled (state_after e s)
        \<and> (errorInfo (state_after e s) = None \<longleftrightarrow>
             (\<exists>a. getAddress e (walletAddress s) = Inr a \<and> newContract e = Inr ()
                \<and> (getHasValidKey e a = Inr True
                   \<or> (\<exists>err. getHasValidKey e a = Inl err \<and> truthy_message err = None)))))"
proof (intro conjI impI)
  show "fst (checkTicketValidity e s) = Returned" by (rule checkTicketValidity_returns)
  show "\<not> isLoading (state_after e s)" if "\<not> isLoading s"
    using that by (simp add: state_after_isLoading)
  show "\<not> isLoading (state_after e s)" if "truthy (trim (walletAddress s))"
    using that by (simp add: state_after_isLoading)
  show "\<not> validate_disabled (state_after e s)" if "truthy (trim (walletAddress s))"
    using that by (simp add: validate_disabled_def state_after_isLoading state_after_walletAddress)
  show "errorInfo (state_after e s) = None \<longleftrightarrow>
        (\<exists>a. getAddress e (walletAddress s) = Inr a \<and> newContract e = Inr ()
           \<and> (getHasValidKey e a = Inr True
              \<or> (\<exists>err. getHasValidKey e a = Inl err \<and> truthy_message err = None)))"
    if "truthy (trim (walletAddress s))"
    using that by (rule diagnostic_unset_iff)
qed

text \<open>A rejected \<open>balanceOf\<close>, in an environment built from \<open>valid_env\<close>.\<close>

theorem errors_recovered_locally_witness:
  "truthy (trim (walletAddress other_state))
   \<and> balanceOf (valid_env\<lparr>balanceOf := (\<lambda>a. Inl (JsError None))\<rparr>) other_address
       = Inl (JsError None)
   \<and> fst (checkTicketValidity (valid_env\<lparr>balanceOf := (\<lambda>a. Inl (JsError None))\<rparr>) other_state)
       = Returned
   \<and> \<not> isLoading (state_after (valid_env\<lparr>balanceOf := (\<lambda>a. Inl (JsError None))\<rparr>) other_state)
   \<and> \<not> validate_disabled
         (state_after (valid_env\<lparr>balanceOf := (\<lambda>a. Inl (JsError None))\<rparr>) other_state)
   \<and> errorInfo (state_after (valid_env\<lparr>balanceOf := (\<lambda>a. Inl (JsError None))\<rparr>) other_state)
       \<noteq> None"
  using errors_recovered_locally [of "valid_env\<lparr>balanceOf := (\<lambda>a. Inl (JsError None))\<rparr>" other_state]
    other_address_truthy getAddress_other
  by (simp add: valid_env_def other_address_def checksummed_address_def)

text \<open>
  The claim as stated fails where \<open>getHasValidKey\<close> is rejected with an empty message: the
  error is recovered, but it is not converted to a diagnostic string.
\<close>

theorem silent_failure_counterexample:
  "getHasValidKey (failing_env (JsError (Some []))) checksummed_address
     = Inl (JsError (Some []))
   \<and> errorInfo (state_after (failing_env (JsError (Some []))) typed_state) = None
   \<and> error_panel (state_after (failing_env (JsError (Some []))) typed_state) = None"
  using typed_address_truthy
  by (simp add: state_after_def checkTicketValidity_def checkValidKey_def
      validKeyError_handler_def failing_env_hyps truthy_def error_panel_def)

end
